theory Spec2Isabelle
  imports Complex_Main
begin

section \<open>Data model\<close>

text \<open>
  The dashboard keeps its incidents in a pandas DataFrame. A row is modelled as a record
  whose fields are the columns the code reads and writes; a cell that pandas shows as
  None / NaN / NaT is \<open>None\<close>. \<open>Occurred_Datetime\<close> is the number of milliseconds since
  the epoch, which is what the feed delivers and what \<open>pd.to_datetime(unit="ms")\<close> turns
  into a timestamp. Floats are idealised as reals, except in the colour tiers, where the
  rounding is written out.
\<close>

record attrs =
  Incident_Type :: "string option"
  Block_Address :: "string option"
  Occurred_Datetime :: "int option"

record incident = attrs +
  coords :: "(real \<times> real) option"
  latitude :: "real option"
  longitude :: "real option"
  hour :: "int option"
  time_of_day :: "string option"

record DataFrame =
  columns :: "string list"
  rows :: "incident list"

text \<open>Assigning to a column appends its name unless the frame already has it.\<close>

definition add_column :: "string list \<Rightarrow> string \<Rightarrow> string list" where
  "add_column cs c = (if c \<in> set cs then cs else cs @ [c])"

datatype error =
    KeyError string
  | ValueError string
  | IndexError
  | RequestError
  | OutOfBoundsDatetime

section \<open>utils.py: add\_time\_of\_day\<close>

text \<open>\<open>Series.dt.hour\<close> of a timestamp given in milliseconds since the epoch.\<close>

definition dt_hour :: "int \<Rightarrow> int" where
  "dt_hour ms = (ms div 3600000) mod 24"

text \<open>
  \<open>pd.cut(x, bins, labels, right=False)\<close>: the label of the first interval
  \<open>[bins[i], bins[i+1])\<close> that holds \<open>x\<close>, and NaN when no interval does.
\<close>

fun cut_left :: "int list \<Rightarrow> string list \<Rightarrow> int \<Rightarrow> string option" where
  "cut_left (b0 # b1 # bs) (l # ls) x =
     (if b0 \<le> x \<and> x < b1 then Some l else cut_left (b1 # bs) ls x)"
| "cut_left _ _ _ = None"

definition bucket_of_hour :: "int \<Rightarrow> string option" where
  "bucket_of_hour h =
     cut_left [0, 6, 12, 18, 24] [''Night'', ''Morning'', ''Afternoon'', ''Evening''] h"

definition add_time_of_day_row :: "incident \<Rightarrow> incident" where
  "add_time_of_day_row r =
     (let h = map_option dt_hour (Occurred_Datetime r)
      in r\<lparr>hour := h, time_of_day := Option.bind h bucket_of_hour\<rparr>)"

definition add_time_of_day :: "DataFrame \<Rightarrow> error + DataFrame" where
  "add_time_of_day df =
     (if ''Occurred_Datetime'' \<notin> set (columns df) then Inl (KeyError ''Occurred_Datetime'')
      else Inr \<lparr>columns = add_column (add_column (columns df) ''hour'') ''time_of_day'',
                rows = map add_time_of_day_row (rows df)\<rparr>)"

section \<open>crime\_dashboard.py: the applied filter\<close>

text \<open>
  \<open>original_main\<close> selects the rows with
  \<open>geo_df['Incident_Type'].isin(types) & geo_df['time_of_day'].isin(times)\<close>.
  \<open>isin\<close> is false on a missing cell.
\<close>

definition isin :: "string option \<Rightarrow> string list \<Rightarrow> bool" where
  "isin c sel = (case c of None \<Rightarrow> False | Some s \<Rightarrow> s \<in> set sel)"

definition type_mask :: "string list \<Rightarrow> incident \<Rightarrow> bool" where
  "type_mask sel_types r = isin (Incident_Type r) sel_types"

definition time_mask :: "string list \<Rightarrow> incident \<Rightarrow> bool" where
  "time_mask sel_times r = isin (time_of_day r) sel_times"

definition filtered_df :: "string list \<Rightarrow> string list \<Rightarrow> incident list \<Rightarrow> incident list" where
  "filtered_df sel_types sel_times geo_df = filter (\<lambda>r. type_mask sel_types r \<and> time_mask sel_times r) geo_df"

text \<open>The two selections taken one at a time, \<open>geo_df[mask]\<close> with a single mask.\<close>

definition filter_by_type :: "string list \<Rightarrow> incident list \<Rightarrow> incident list" where
  "filter_by_type sel_types geo_df = filter (type_mask sel_types) geo_df"

definition filter_by_time :: "string list \<Rightarrow> incident list \<Rightarrow> incident list" where
  "filter_by_time sel_times geo_df = filter (time_mask sel_times) geo_df"

section \<open>utils.py: fetch\_crime\_data\<close>

text \<open>
  The feature service answers a query with a JSON object whose \<open>features\<close> entry is a
  list of features, each holding an \<open>attributes\<close> object with the three requested
  fields. The code reads both entries with \<open>dict.get\<close> and a default, so both may be
  absent. \<open>requests_get start_date end_date offset count\<close> is the request for the
  where-clause of the date range with \<open>resultOffset\<close> and \<open>resultRecordCount\<close>; a
  failed request raises.
\<close>

record feature =
  attributes :: "attrs option"

record response =
  features :: "feature list option"

definition batch_size :: nat where
  "batch_size = 2000"

text \<open>
  The \<open>while True\<close> loop. It returns only when a page is empty (or a request raises), so
  the result is an option: \<open>None\<close> is the loop that never ends.
\<close>

partial_function (option) fetch_loop ::
  "(nat \<Rightarrow> nat \<Rightarrow> error + response) \<Rightarrow> nat \<Rightarrow> feature list \<Rightarrow> (error + feature list) option" where
  "fetch_loop get offset all_features =
     (case get offset batch_size of
        Inl e \<Rightarrow> Some (Inl e)
      | Inr data \<Rightarrow>
          (case (case features data of None \<Rightarrow> [] | Some fs \<Rightarrow> fs) of
             [] \<Rightarrow> Some (Inr all_features)
           | f # fs \<Rightarrow> fetch_loop get (offset + batch_size) (all_features @ f # fs)))"

definition empty_row :: incident where
  "empty_row = \<lparr>Incident_Type = None, Block_Address = None, Occurred_Datetime = None,
     coords = None, latitude = None, longitude = None, hour = None, time_of_day = None\<rparr>"

definition row_of_attrs :: "attrs \<Rightarrow> incident" where
  "row_of_attrs a = \<lparr>Incident_Type = Incident_Type a, Block_Address = Block_Address a,
     Occurred_Datetime = Occurred_Datetime a,
     coords = None, latitude = None, longitude = None, hour = None, time_of_day = None\<rparr>"

text \<open>
  \<open>pd.DataFrame(list_of_dicts)\<close>: one row per dict, and the columns are the keys that
  occur in some dict. An empty list, or a list of empty dicts, gives a frame without
  columns.
\<close>

definition DataFrame_of_records :: "attrs option list \<Rightarrow> DataFrame" where
  "DataFrame_of_records recs =
     \<lparr>columns = (if list_ex (\<lambda>a. a \<noteq> None) recs
                  then [''Incident_Type'', ''Block_Address'', ''Occurred_Datetime''] else []),
      rows = map (\<lambda>a. case a of None \<Rightarrow> empty_row | Some a \<Rightarrow> row_of_attrs a) recs\<rparr>"

text \<open>
  \<open>pd.to_datetime(column, unit="ms")\<close>: a timestamp counts nanoseconds in a signed 64-bit
  integer, so the conversion raises OutOfBoundsDatetime for a value whose nanosecond count
  does not fit; a missing value becomes NaT. A value in range keeps its instant, which the
  model holds in milliseconds.
\<close>

definition in_bounds_ms :: "int \<Rightarrow> bool" where
  "in_bounds_ms ms = (- 9223372036854 \<le> ms \<and> ms \<le> 9223372036854)"

definition to_datetime_ms :: "int option list \<Rightarrow> error + int option list" where
  "to_datetime_ms column =
     (if list_all (\<lambda>v. case v of None \<Rightarrow> True | Some ms \<Rightarrow> in_bounds_ms ms) column
      then Inr column else Inl OutOfBoundsDatetime)"

text \<open>\<open>df[name] = column\<close> for the timestamp column, row by row.\<close>

definition set_Occurred_Datetime :: "incident list \<Rightarrow> int option list \<Rightarrow> incident list" where
  "set_Occurred_Datetime rs column = map (\<lambda>(r, v). r\<lparr>Occurred_Datetime := v\<rparr>) (zip rs column)"

text \<open>\<open>df["Occurred_Datetime"]\<close> raises KeyError when the frame has no such column.\<close>

definition fetch_crime_data ::
  "('d \<Rightarrow> 'd \<Rightarrow> nat \<Rightarrow> nat \<Rightarrow> error + response) \<Rightarrow> 'd \<Rightarrow> 'd \<Rightarrow> (error + DataFrame) option" where
  "fetch_crime_data requests_get start_date end_date =
     (case fetch_loop (requests_get start_date end_date) 0 [] of
        None \<Rightarrow> None
      | Some (Inl e) \<Rightarrow> Some (Inl e)
      | Some (Inr all_features) \<Rightarrow>
          (let df = DataFrame_of_records (map attributes all_features)
           in if ''Occurred_Datetime'' \<notin> set (columns df)
              then Some (Inl (KeyError ''Occurred_Datetime''))
              else (case to_datetime_ms (map Occurred_Datetime (rows df)) of
                      Inl e \<Rightarrow> Some (Inl e)
                    | Inr column \<Rightarrow>
                        Some (Inr (df\<lparr>rows := set_Occurred_Datetime (rows df) column\<rparr>)))))"

section \<open>utils.py: geocode\_addresses\<close>

text \<open>
  The cache file is a JSON object from address to a coordinate pair or null. The state the
  function works on is the content of the file (\<open>None\<close> when the file does not exist) and
  the list of queries sent to the geocoding provider so far. \<open>geocode\<close> is the
  rate-limited callable the code invokes: it returns a location, or None, or raises.
\<close>

type_synonym location = "real \<times> real"

type_synonym cache = "string \<rightharpoonup> location option"

record world =
  cache_file :: "cache option"
  lookups :: "string list"

definition query :: "string \<Rightarrow> string" where
  "query address = address @ '', Berkeley, CA''"

text \<open>
  The body of the \<open>try\<close>: the coordinates of the location found, None when the provider
  finds nothing, and None again from the bare \<open>except\<close> when the call raises.
\<close>

definition lookup_result :: "(string \<Rightarrow> 'e + location option) \<Rightarrow> string \<Rightarrow> location option" where
  "lookup_result geocode address =
     (case geocode (query address) of Inr location \<Rightarrow> location | Inl e \<Rightarrow> None)"

fun geocode_loop ::
  "(string \<Rightarrow> 'e + location option) \<Rightarrow> string list \<Rightarrow> cache \<Rightarrow> cache \<Rightarrow> string list
     \<Rightarrow> cache \<times> cache \<times> string list" where
  "geocode_loop geocode [] geocode_cache address_coords sent = (geocode_cache, address_coords, sent)"
| "geocode_loop geocode (address # rest) geocode_cache address_coords sent =
     (if geocode_cache address = None then
        (let v = lookup_result geocode address
         in geocode_loop geocode rest (geocode_cache(address \<mapsto> v)) (address_coords(address \<mapsto> v))
              (sent @ [query address]))
      else geocode_loop geocode rest geocode_cache
             (address_coords(address := geocode_cache address)) sent)"

text \<open>\<open>Series.dropna().unique()\<close>: the values that are present, each once, in order of first appearance.\<close>

definition unique_addresses :: "DataFrame \<Rightarrow> string list" where
  "unique_addresses df = rev (remdups (rev (List.map_filter Block_Address (rows df))))"

definition map_coords :: "cache \<Rightarrow> incident \<Rightarrow> incident" where
  "map_coords address_coords r =
     r\<lparr>coords := (case Block_Address r of None \<Rightarrow> None
                   | Some a \<Rightarrow> (case address_coords a of None \<Rightarrow> None | Some v \<Rightarrow> v))\<rparr>"

definition split_coords :: "incident \<Rightarrow> incident" where
  "split_coords r = r\<lparr>latitude := map_option fst (coords r), longitude := map_option snd (coords r)\<rparr>"

text \<open>
  The last assignment builds a frame from the list of coordinate pairs; from an empty list
  that frame has no columns, and assigning it to the two columns raises ValueError. The
  cache file has been written by then.
\<close>

definition geocode_addresses ::
  "(string \<Rightarrow> 'e + location option) \<Rightarrow> DataFrame \<Rightarrow> world \<Rightarrow> (error + DataFrame) \<times> world" where
  "geocode_addresses geocode df w =
     (let geocode_cache = (case cache_file w of None \<Rightarrow> Map.empty | Some c \<Rightarrow> c)
      in if ''Block_Address'' \<notin> set (columns df) then (Inl (KeyError ''Block_Address''), w)
         else
           (case geocode_loop geocode (unique_addresses df) geocode_cache Map.empty (lookups w) of
              (geocode_cache', address_coords, sent) \<Rightarrow>
                (let w' = \<lparr>cache_file = Some geocode_cache', lookups = sent\<rparr>;
                     kept = filter (\<lambda>r. coords r \<noteq> None) (map (map_coords address_coords) (rows df))
                 in if kept = [] then (Inl (ValueError ''Columns must be same length as key''), w')
                    else (Inr \<lparr>columns = add_column (add_column (add_column (columns df)
                                   ''coords'') ''latitude'') ''longitude'',
                               rows = map split_coords kept\<rparr>, w'))))"

section \<open>Percentiles\<close>

text \<open>
  \<open>Series.quantile\<close> with the default linear interpolation: in the sorted data, the
  value at the fractional position \<open>q * (n - 1)\<close>.
\<close>

definition quantile :: "real list \<Rightarrow> real \<Rightarrow> real" where
  "quantile xs q =
     (let s = sort xs; n = length xs; h = q * real (n - 1);
          lo = nat \<lfloor>h\<rfloor>; hi = min (lo + 1) (n - 1); g = h - real lo
      in s ! lo + g * (s ! hi - s ! lo))"

text \<open>\<open>np.round(x, 1)\<close>: to one decimal, a tie going to the even neighbour.\<close>

definition rint :: "real \<Rightarrow> int" where
  "rint x =
     (let f = \<lfloor>x\<rfloor>; d = x - of_int f
      in if d < 1 / 2 then f else if 1 / 2 < d then f + 1 else if even f then f else f + 1)"

definition np_round1 :: "real \<Rightarrow> real" where
  "np_round1 x = of_int (rint (x * 10)) / 10"

definition clip :: "real \<Rightarrow> real \<Rightarrow> real \<Rightarrow> real" where
  "clip lo hi x = min (max x lo) hi"

section \<open>crime\_dashboard.py: colour tiers\<close>

text \<open>
  The breakpoints are float64 numbers and are compared with the integer counts, so the
  rounding of the arithmetic is part of the model here. \<open>fl64\<close> rounds a real to the
  nearest number with a 53-bit significand, a tie going to the even one. Overflow and
  subnormal numbers are left out: the counts and the positions in this computation are
  far from both.
\<close>

definition fl64 :: "real \<Rightarrow> real" where
  "fl64 x =
     (if x = 0 then 0
      else (let e = \<lfloor>log 2 \<bar>x\<bar>\<rfloor>
            in of_int (rint (x * 2 powi (52 - e))) * 2 powi (e - 52)))"

text \<open>
  numpy's \<open>_lerp\<close>: \<open>a + (b - a) * t\<close>, replaced by \<open>b - (b - a) * (1 - t)\<close> where
  \<open>t >= 0.5\<close>.
\<close>

definition lerp :: "real \<Rightarrow> real \<Rightarrow> real \<Rightarrow> real" where
  "lerp a b t =
     (let diff_b_a = fl64 (b - a)
      in if 1 / 2 \<le> t then fl64 (b - fl64 (diff_b_a * fl64 (1 - t)))
         else fl64 (a + fl64 (diff_b_a * t)))"

text \<open>
  \<open>np.quantile(arr, q)\<close> with the default method: the virtual index \<open>(n - 1) * q\<close>,
  the elements of the sorted array below and above it, and their interpolation.
\<close>

definition np_quantile :: "real list \<Rightarrow> real \<Rightarrow> real" where
  "np_quantile arr q =
     (let s = sort arr; n = length arr;
          virtual_index = fl64 (real (n - 1) * q);
          previous_index = nat \<lfloor>virtual_index\<rfloor>;
          next_index = min (previous_index + 1) (n - 1);
          gamma = fl64 (virtual_index - real previous_index)
      in lerp (s ! previous_index) (s ! next_index) gamma)"

definition np_unique :: "real list \<Rightarrow> real list" where
  "np_unique xs = remdups (sort xs)"

text \<open>The levels are the float literals \<open>0.2, 0.4, 0.6, 0.8, 1.0\<close>.\<close>

definition classify_counts :: "('k \<times> nat) list \<Rightarrow> real list" where
  "classify_counts counts =
     (if counts = [] then []
      else (let values = map (\<lambda>kv. real (snd kv)) counts
            in np_unique (map (np_quantile values)
                 [fl64 (2 / 10), fl64 (4 / 10), fl64 (6 / 10), fl64 (8 / 10), fl64 1])))"

definition color_palette :: "string list" where
  "color_palette = [''#2ECC40'', ''#FFDC00'', ''#FF851B'', ''#FF4136'', ''#85144b'']"

text \<open>The \<open>for\<close> loop: the first index \<open>i\<close> with \<open>breaks[i] <= count < breaks[i+1]\<close>.\<close>

fun first_interval :: "real list \<Rightarrow> real \<Rightarrow> nat \<Rightarrow> nat option" where
  "first_interval (b0 # b1 # bs) count i =
     (if b0 \<le> count \<and> count < b1 then Some i else first_interval (b1 # bs) count (Suc i))"
| "first_interval _ count i = None"

definition get_color_for_count :: "nat \<Rightarrow> real list \<Rightarrow> error + string" where
  "get_color_for_count count breaks =
     (if breaks = [] then Inr ''#CCCCCC''
      else (case first_interval breaks (real count) 0 of
              Some i \<Rightarrow> (if i < length color_palette then Inr (color_palette ! i) else Inl IndexError)
            | None \<Rightarrow> Inr (last color_palette)))"

text \<open>The colour \<open>create_crime_map\<close> gives each edge of the filtered count map.\<close>

definition edge_colors :: "('k \<times> nat) list \<Rightarrow> ('k \<times> (error + string)) list" where
  "edge_colors edge_counts =
     (let breaks = classify_counts edge_counts
      in map (\<lambda>kv. (fst kv, get_color_for_count (snd kv) breaks)) edge_counts)"

section \<open>safety\_score.py\<close>

definition density_score :: "real \<Rightarrow> real \<Rightarrow> real \<Rightarrow> real" where
  "density_score p50 p95 c =
     (let x = min c p95;
          scaled = (x - p50) / (p95 - p50 + 1 / 10 ^ 9);
          score = 10 * (1 - 1 / (1 + exp (- 3 * scaled)))
      in clip (1 / 2) (19 / 2) (np_round1 score))"

text \<open>
  On an empty Series every step gives an empty Series, so the percentiles (NaN there) are
  only taken of a non-empty one.
\<close>

definition calculate_crime_density_scores :: "nat list \<Rightarrow> real list" where
  "calculate_crime_density_scores crime_counts =
     (if crime_counts = [] then []
      else (let cs = map real crime_counts;
                p50 = quantile cs (50 / 100);
                p95 = quantile cs (95 / 100)
            in map (density_score p50 p95) cs))"

text \<open>
  The second normalisation divides by the standard deviation, which may be zero or
  undefined, so its results are floats with the non-finite values written out.
\<close>

datatype fl = Fin real | PInf | NInf | NaN

text \<open>\<open>Series.mean()\<close>; it is only used on the elements of the Series, so never on an empty one.\<close>

definition series_mean :: "real list \<Rightarrow> real" where
  "series_mean xs = sum_list xs / real (length xs)"

text \<open>\<open>Series.std()\<close>: the sample standard deviation (ddof = 1), NaN for fewer than two values.\<close>

definition series_std :: "real list \<Rightarrow> fl" where
  "series_std xs =
     (if length xs < 2 then NaN
      else Fin (sqrt (sum_list (map (\<lambda>x. (x - series_mean xs) ^ 2) xs) / real (length xs - 1))))"

fun fdiv :: "real \<Rightarrow> fl \<Rightarrow> fl" where
  "fdiv a (Fin s) =
     (if s \<noteq> 0 then Fin (a / s) else if a = 0 then NaN else if 0 < a then PInf else NInf)"
| "fdiv a PInf = Fin 0"
| "fdiv a NInf = Fin 0"
| "fdiv a NaN = NaN"

fun fmap :: "(real \<Rightarrow> real) \<Rightarrow> fl \<Rightarrow> fl" where
  "fmap g (Fin x) = Fin (g x)"
| "fmap g y = y"

fun fclip :: "real \<Rightarrow> real \<Rightarrow> fl \<Rightarrow> fl" where
  "fclip lo hi (Fin x) = Fin (clip lo hi x)"
| "fclip lo hi PInf = Fin hi"
| "fclip lo hi NInf = Fin lo"
| "fclip lo hi NaN = NaN"

definition renormalize :: "real list \<Rightarrow> fl list" where
  "renormalize scores =
     map (\<lambda>x. fclip 0 10 (fmap np_round1
                (fmap (\<lambda>z. z * 2 + 5) (fdiv (x - series_mean scores) (series_std scores)))))
       scores"

text \<open>
  Steps 3 to 5 of \<open>precompute_safety_scores\<close>. \<open>crime_counts\<close> are the counts of the
  edges that have incidents, \<open>n_unmatched\<close> is the number of streets that the left merge
  leaves without a score. Step 3 splits the edge identifiers into the columns u, v and
  key by assigning a frame built from the list of identifiers; with no incident at all
  that list is empty, the frame has no column, and the assignment raises ValueError.
  Otherwise the edges with incidents are scored from their counts, the unmatched streets
  get 10, and the whole column is re-normalised.
\<close>

definition precompute_safety_scores :: "nat list \<Rightarrow> nat \<Rightarrow> error + fl list" where
  "precompute_safety_scores crime_counts n_unmatched =
     (if crime_counts = [] then Inl (ValueError ''Columns must be same length as key'')
      else Inr (renormalize
                  (calculate_crime_density_scores crime_counts @ replicate n_unmatched 10)))"

section \<open>Time-of-day classifier\<close>

lemma dt_hour_range: "0 \<le> dt_hour ms \<and> dt_hour ms < 24"
  by (simp add: dt_hour_def)

text \<open>
  C4. The time-of-day bucket is a total function of the hour in [0,24): hours in [0,6) are
  Night, [6,12) Morning, [12,18) Afternoon and [18,24) Evening, so that every hour of the
  day has exactly the one label its left-closed, right-open interval gives; in particular
  5 is Night, 6 is Morning and 23 is Evening. For an incident with a timestamp the hour is
  in [0,24) and the bucket written to the row is the bucket of that hour.
\<close>

theorem time_of_day_buckets:
  "(0 \<le> h \<and> h < 24 \<longrightarrow>
      bucket_of_hour h =
        Some (if h < 6 then ''Night'' else if h < 12 then ''Morning''
              else if h < 18 then ''Afternoon'' else ''Evening''))
   \<and> (Occurred_Datetime r = Some ms \<longrightarrow>
        hour (add_time_of_day_row r) = Some (dt_hour ms)
        \<and> 0 \<le> dt_hour ms \<and> dt_hour ms < 24
        \<and> time_of_day (add_time_of_day_row r) = bucket_of_hour (dt_hour ms))"
  by (simp add: bucket_of_hour_def add_time_of_day_row_def dt_hour_range)

theorem time_of_day_buckets_witness:
  "bucket_of_hour 5 = Some ''Night'' \<and> bucket_of_hour 6 = Some ''Morning''
   \<and> bucket_of_hour 23 = Some ''Evening'' \<and> bucket_of_hour 0 = Some ''Night''
   \<and> bucket_of_hour 12 = Some ''Afternoon'' \<and> bucket_of_hour 18 = Some ''Evening''
   \<and> time_of_day (add_time_of_day_row (empty_row\<lparr>Occurred_Datetime := Some 1735707600000\<rparr>))
       = Some ''Night''"
proof -
  let ?r = "empty_row\<lparr>Occurred_Datetime := Some 1735707600000\<rparr>"
  have hr: "dt_hour 1735707600000 = 5"
    by (simp add: dt_hour_def)
  have "Occurred_Datetime ?r = Some 1735707600000"
    by simp
  then have "time_of_day (add_time_of_day_row ?r) = bucket_of_hour 5"
    using time_of_day_buckets [of 5 ?r 1735707600000] by (simp add: hr)
  then show ?thesis
    using time_of_day_buckets [of 5 ?r] time_of_day_buckets [of 6 ?r] time_of_day_buckets [of 23 ?r]
      time_of_day_buckets [of 0 ?r] time_of_day_buckets [of 12 ?r] time_of_day_buckets [of 18 ?r]
    by simp
qed

section \<open>Filter composition\<close>

text \<open>
  C8. Filtering by incident type and then by time of day gives the same rows as filtering
  by time of day and then by type, both give the rows the dashboard's combined mask
  selects, and applying the filter a second time changes nothing.
\<close>

theorem filter_commute_idem:
  "filter_by_time sel_times (filter_by_type sel_types geo_df)
     = filter_by_type sel_types (filter_by_time sel_times geo_df)
   \<and> filter_by_time sel_times (filter_by_type sel_types geo_df) = filtered_df sel_types sel_times geo_df
   \<and> filtered_df sel_types sel_times (filtered_df sel_types sel_times geo_df) = filtered_df sel_types sel_times geo_df
   \<and> filter_by_type sel_types (filter_by_type sel_types geo_df) = filter_by_type sel_types geo_df
   \<and> filter_by_time sel_times (filter_by_time sel_times geo_df) = filter_by_time sel_times geo_df"
  by (auto simp: filter_by_time_def filter_by_type_def filtered_df_def intro: filter_cong)

section \<open>Incident fetcher\<close>

lemma set_Occurred_Datetime_same:
  "set_Occurred_Datetime rs (map Occurred_Datetime rs) = rs"
  by (induction rs) (simp_all add: set_Occurred_Datetime_def)

lemma fetch_empty_first_page:
  assumes "requests_get start_date end_date 0 batch_size = Inr page1"
    and "features page1 = None \<or> features page1 = Some []"
  shows "fetch_crime_data requests_get start_date end_date
           = Some (Inl (KeyError ''Occurred_Datetime''))"
proof -
  have "fetch_loop (requests_get start_date end_date) 0 [] = Some (Inr [])"
    using assms by (subst fetch_loop.simps) auto
  then show ?thesis
    by (simp add: fetch_crime_data_def DataFrame_of_records_def)
qed

text \<open>
  C2. A date range for which the feed has no records: the first page is empty, the loop
  ends with no feature, the frame built from the empty list has no column, and reading
  its \<open>Occurred_Datetime\<close> column raises KeyError instead of returning an empty result.
\<close>

theorem fetch_empty_range_raises:
  "fetch_crime_data (\<lambda>s e offset n. Inr \<lparr>features = Some []\<rparr>)
       (2025 :: nat, 1 :: nat, 1 :: nat) (2025, 1, 2)
     = Some (Inl (KeyError ''Occurred_Datetime''))"
  by (simp add: fetch_crime_data_def fetch_loop.simps DataFrame_of_records_def)

lemma fetch_loop_two_pages:
  assumes "get 0 batch_size = Inr \<lparr>features = Some page1\<rparr>" and "page1 \<noteq> []"
    and "get batch_size batch_size = Inr page2"
    and "features page2 = None \<or> features page2 = Some []"
  shows "fetch_loop get 0 [] = Some (Inr page1)"
proof -
  have "fetch_loop get batch_size page1 = Some (Inr page1)"
    using assms(3,4) by (subst fetch_loop.simps) auto
  moreover obtain f fs where "page1 = f # fs"
    using assms(2) by (cases page1) auto
  ultimately show ?thesis
    using assms(1) by (subst fetch_loop.simps) simp
qed

text \<open>The timestamps of a page that \<open>pd.to_datetime\<close> can convert.\<close>

lemma to_datetime_ms_page:
  assumes "list_all (\<lambda>f. case attributes f of None \<Rightarrow> True
             | Some a \<Rightarrow> (case Occurred_Datetime a of None \<Rightarrow> True | Some ms \<Rightarrow> in_bounds_ms ms)) page"
  shows "to_datetime_ms (map Occurred_Datetime (rows (DataFrame_of_records (map attributes page))))
           = Inr (map Occurred_Datetime (rows (DataFrame_of_records (map attributes page))))"
proof -
  have "list_all (\<lambda>v. case v of None \<Rightarrow> True | Some ms \<Rightarrow> in_bounds_ms ms)
          (map Occurred_Datetime (rows (DataFrame_of_records (map attributes page))))"
    using assms
    by (auto simp: list_all_iff DataFrame_of_records_def empty_row_def row_of_attrs_def
        split: option.splits)
  then show ?thesis
    by (simp add: to_datetime_ms_def)
qed

text \<open>
  C6. A feed that returns exactly \<open>batch_size\<close> records on the first page and an empty
  second page: the loop ends at the second request with exactly the features of the first
  page, none twice and none missing; and when the records carry their attributes and
  timestamps that pandas can represent, the function returns a frame of exactly
  \<open>batch_size\<close> rows, the rows of the first page in their order.
\<close>

theorem fetch_exactly_batch_size:
  assumes "requests_get start_date end_date 0 batch_size = Inr \<lparr>features = Some page1\<rparr>"
    and "length page1 = batch_size"
    and "requests_get start_date end_date batch_size batch_size = Inr page2"
    and "features page2 = None \<or> features page2 = Some []"
  shows "fetch_loop (requests_get start_date end_date) 0 [] = Some (Inr page1)
         \<and> (list_ex (\<lambda>f. attributes f \<noteq> None) page1
              \<and> list_all (\<lambda>f. case attributes f of None \<Rightarrow> True
                    | Some a \<Rightarrow> (case Occurred_Datetime a of None \<Rightarrow> True
                                 | Some ms \<Rightarrow> in_bounds_ms ms)) page1
             \<longrightarrow> (\<exists>df. fetch_crime_data requests_get start_date end_date = Some (Inr df)
                    \<and> length (rows df) = batch_size
                    \<and> rows df = map (\<lambda>f. case attributes f of None \<Rightarrow> empty_row
                                           | Some a \<Rightarrow> row_of_attrs a) page1))"
proof (intro conjI impI)
  have ne: "page1 \<noteq> []" using assms(2) by (auto simp: batch_size_def)
  show loop: "fetch_loop (requests_get start_date end_date) 0 [] = Some (Inr page1)"
    using assms(1) ne assms(3,4)
    by (rule fetch_loop_two_pages [of "requests_get start_date end_date"])
  assume wf: "list_ex (\<lambda>f. attributes f \<noteq> None) page1
              \<and> list_all (\<lambda>f. case attributes f of None \<Rightarrow> True
                    | Some a \<Rightarrow> (case Occurred_Datetime a of None \<Rightarrow> True
                                 | Some ms \<Rightarrow> in_bounds_ms ms)) page1"
  let ?df = "DataFrame_of_records (map attributes page1)"
  have col: "''Occurred_Datetime'' \<in> set (columns ?df)"
    using wf by (simp add: DataFrame_of_records_def list_ex_iff)
  have conv: "to_datetime_ms (map Occurred_Datetime (rows ?df)) = Inr (map Occurred_Datetime (rows ?df))"
    using wf by (intro to_datetime_ms_page) simp
  have res: "fetch_crime_data requests_get start_date end_date = Some (Inr ?df)"
    by (simp add: fetch_crime_data_def loop Let_def col conv set_Occurred_Datetime_same)
  have rows: "rows ?df = map (\<lambda>f. case attributes f of None \<Rightarrow> empty_row
                                    | Some a \<Rightarrow> row_of_attrs a) page1"
    by (simp add: DataFrame_of_records_def o_def)
  show "\<exists>df. fetch_crime_data requests_get start_date end_date = Some (Inr df)
           \<and> length (rows df) = batch_size
           \<and> rows df = map (\<lambda>f. case attributes f of None \<Rightarrow> empty_row
                                  | Some a \<Rightarrow> row_of_attrs a) page1"
    using res rows assms(2) by simp
qed

theorem fetch_exactly_batch_size_witness:
  "\<exists>df. fetch_crime_data
          (\<lambda>(s::nat) (e::nat) offset n. Inr \<lparr>features = Some (if offset = 0 then replicate 2000
              \<lparr>attributes = Some \<lparr>Incident_Type = Some ''THEFT'',
                 Block_Address = Some ''2100 SHATTUCK AVE'',
                 Occurred_Datetime = Some 1735689600000\<rparr>\<rparr> else [])\<rparr>) 0 1
        = Some (Inr df) \<and> length (rows df) = 2000"
proof -
  let ?f = "\<lparr>attributes = Some \<lparr>Incident_Type = Some ''THEFT'',
                 Block_Address = Some ''2100 SHATTUCK AVE'',
                 Occurred_Datetime = Some 1735689600000\<rparr>\<rparr>"
  let ?get = "\<lambda>(s::nat) (e::nat) offset (n::nat).
      Inr \<lparr>features = Some (if offset = 0 then replicate 2000 ?f else [])\<rparr> :: error + response"
  have "list_ex (\<lambda>f. attributes f \<noteq> None) (replicate 2000 ?f)"
    by (simp add: list_ex_iff)
  moreover have "list_all (\<lambda>f. case attributes f of None \<Rightarrow> True
                    | Some a \<Rightarrow> (case Occurred_Datetime a of None \<Rightarrow> True
                                 | Some ms \<Rightarrow> in_bounds_ms ms)) (replicate 2000 ?f)"
    by (simp add: list_all_iff in_bounds_ms_def)
  ultimately show ?thesis
    using fetch_exactly_batch_size [of ?get 0 1 "replicate 2000 ?f" "\<lparr>features = Some []\<rparr>"]
    by (auto simp: batch_size_def)
qed

text \<open>
  A timestamp outside the range: one record with the millisecond count \<open>10^17\<close> and the
  conversion raises.
\<close>

lemma fetch_out_of_bounds:
  "fetch_crime_data
     (\<lambda>(s::nat) (e::nat) offset n. Inr \<lparr>features = Some (if offset = 0 then
          [\<lparr>attributes = Some \<lparr>Incident_Type = Some ''THEFT'',
              Block_Address = Some ''2100 SHATTUCK AVE'',
              Occurred_Datetime = Some 100000000000000000\<rparr>\<rparr>] else [])\<rparr>) 0 1
     = Some (Inl OutOfBoundsDatetime)"
  by (simp add: fetch_crime_data_def fetch_loop.simps DataFrame_of_records_def row_of_attrs_def
      to_datetime_ms_def in_bounds_ms_def batch_size_def)

section \<open>Address geocoder\<close>

lemma query_inj [simp]: "query a = query b \<longleftrightarrow> a = b"
  by (simp add: query_def)

lemma loop_cache:
  "fst (geocode_loop g xs gc ac sent) a
     = (if a \<in> set xs \<and> gc a = None then Some (lookup_result g a) else gc a)"
  by (induction xs arbitrary: gc ac sent) (auto simp: Let_def lookup_result_def)

lemma loop_sent:
  "distinct xs \<Longrightarrow>
     snd (snd (geocode_loop g xs gc ac sent)) = sent @ map query (filter (\<lambda>a. gc a = None) xs)"
proof (induction xs arbitrary: gc ac sent)
  case Nil
  then show ?case by simp
next
  case (Cons a xs)
  have "filter (\<lambda>b. (gc(a \<mapsto> v)) b = None) xs = filter (\<lambda>b. gc b = None) xs" for v
    using Cons.prems by (intro filter_cong) auto
  then show ?case
    using Cons by (simp add: Let_def)
qed

lemma loop_coords:
  "fst (snd (geocode_loop g xs gc ac sent)) a
     = (if a \<in> set xs then fst (geocode_loop g xs gc ac sent) a else ac a)"
proof (induction xs arbitrary: gc ac sent)
  case Nil
  then show ?case by simp
next
  case (Cons b xs)
  then show ?case
    by (auto simp: Let_def loop_cache)
qed

lemma set_unique_addresses:
  "set (unique_addresses df) = {a. Some a \<in> Block_Address ` set (rows df)}"
proof -
  have "set (List.map_filter f xs) = {a. Some a \<in> f ` set xs}" for f :: "incident \<Rightarrow> string option" and xs
    by (induction xs) (auto split: option.splits)
  then show ?thesis by (simp add: unique_addresses_def)
qed

lemma distinct_unique_addresses: "distinct (unique_addresses df)"
  by (simp add: unique_addresses_def)

lemma count_query_distinct:
  "distinct xs \<Longrightarrow> count_list (map query xs) (query a) = (if a \<in> set xs then 1 else 0)"
  by (induction xs) auto

lemma geocode_addresses_unfold:
  assumes "''Block_Address'' \<in> set (columns df)"
  shows "geocode_addresses g df w =
     (let L = geocode_loop g (unique_addresses df)
                (case cache_file w of None \<Rightarrow> Map.empty | Some c \<Rightarrow> c) Map.empty (lookups w);
          kept = filter (\<lambda>r. coords r \<noteq> None) (map (map_coords (fst (snd L))) (rows df))
      in (if kept = [] then Inl (ValueError ''Columns must be same length as key'')
          else Inr \<lparr>columns = add_column (add_column (add_column (columns df)
                                   ''coords'') ''latitude'') ''longitude'',
                    rows = map split_coords kept\<rparr>,
          \<lparr>cache_file = Some (fst L), lookups = snd (snd L)\<rparr>))"
  using assms unfolding geocode_addresses_def Let_def
  by (cases "geocode_loop g (unique_addresses df)
                (case cache_file w of None \<Rightarrow> Map.empty | Some c \<Rightarrow> c) Map.empty (lookups w)")
     (simp del: not_None_eq)

lemma geocode_world:
  assumes "''Block_Address'' \<in> set (columns df)"
    and "c0 = (case cache_file w of None \<Rightarrow> Map.empty | Some c \<Rightarrow> c)"
  shows "cache_file (snd (geocode_addresses g df w))
           = Some (\<lambda>a. if a \<in> set (unique_addresses df) \<and> c0 a = None
                         then Some (lookup_result g a) else c0 a)"
    and "lookups (snd (geocode_addresses g df w))
           = lookups w @ map query (filter (\<lambda>a. c0 a = None) (unique_addresses df))"
  unfolding geocode_addresses_unfold [OF assms(1)] Let_def assms(2)
  by (simp_all add: loop_cache loop_sent distinct_unique_addresses fun_eq_iff)

lemma geocode_world_KeyError:
  "''Block_Address'' \<notin> set (columns df) \<Longrightarrow> geocode_addresses g df w = (Inl (KeyError ''Block_Address''), w)"
  by (simp add: geocode_addresses_def)

lemma geocode_new_lookups:
  "count_list (lookups (snd (geocode_addresses g df w))) (query a)
     = count_list (lookups w) (query a)
       + (if ''Block_Address'' \<in> set (columns df) \<and> a \<in> set (unique_addresses df)
             \<and> (case cache_file w of None \<Rightarrow> Map.empty | Some c \<Rightarrow> c) a = None then 1 else 0)"
proof (cases "''Block_Address'' \<in> set (columns df)")
  case True
  show ?thesis
    using True by (simp add: geocode_world(2) [OF True refl] count_query_distinct distinct_unique_addresses)
next
  case False
  then show ?thesis by (simp add: geocode_world_KeyError)
qed

lemma geocode_lookups_le:
  "count_list (lookups (snd (geocode_addresses g df w))) (query a) \<le> count_list (lookups w) (query a) + 1"
  by (simp add: geocode_new_lookups)

lemma geocode_lookups_hit:
  "(case cache_file w of None \<Rightarrow> Map.empty | Some c \<Rightarrow> c) a \<noteq> None \<Longrightarrow>
   count_list (lookups (snd (geocode_addresses g df w))) (query a) = count_list (lookups w) (query a)"
  by (simp add: geocode_new_lookups)

lemma geocode_result:
  assumes "''Block_Address'' \<in> set (columns df)"
    and "cache_file (snd (geocode_addresses g df w)) = Some gc"
  shows "fst (geocode_addresses g df w)
           = (let kept = filter (\<lambda>r. coords r \<noteq> None)
                           (map (\<lambda>r. r\<lparr>coords := (case Block_Address r of None \<Rightarrow> None
                                     | Some b \<Rightarrow> (case gc b of None \<Rightarrow> None | Some v \<Rightarrow> v))\<rparr>) (rows df))
              in if kept = [] then Inl (ValueError ''Columns must be same length as key'')
                 else Inr \<lparr>columns = add_column (add_column (add_column (columns df)
                                   ''coords'') ''latitude'') ''longitude'',
                           rows = map split_coords kept\<rparr>)"
proof -
  let ?c0 = "case cache_file w of None \<Rightarrow> Map.empty | Some c \<Rightarrow> c"
  let ?L = "geocode_loop g (unique_addresses df) ?c0 Map.empty (lookups w)"
  have gc: "gc = fst ?L"
    using assms(2) unfolding geocode_addresses_unfold [OF assms(1)] Let_def by simp
  have meq: "map (map_coords (fst (snd ?L))) (rows df)
          = map (\<lambda>r. r\<lparr>coords := (case Block_Address r of None \<Rightarrow> None
                                     | Some b \<Rightarrow> (case gc b of None \<Rightarrow> None | Some v \<Rightarrow> v))\<rparr>) (rows df)"
  proof (rule map_cong [OF refl])
    fix r assume r: "r \<in> set (rows df)"
    show "map_coords (fst (snd ?L)) r = r\<lparr>coords := (case Block_Address r of None \<Rightarrow> None
                                     | Some b \<Rightarrow> (case gc b of None \<Rightarrow> None | Some v \<Rightarrow> v))\<rparr>"
    proof (cases "Block_Address r")
      case None
      then show ?thesis by (simp add: map_coords_def)
    next
      case (Some b)
      then have "b \<in> set (unique_addresses df)"
        using r by (force simp: set_unique_addresses)
      then show ?thesis
        using Some by (simp add: map_coords_def loop_coords gc)
    qed
  qed
  show ?thesis
    unfolding geocode_addresses_unfold [OF assms(1)] Let_def meq fst_conv ..
qed

lemma in_set_nonempty: "x \<in> set xs \<Longrightarrow> xs \<noteq> []"
  by auto

lemma in_set_map: "x \<in> set xs \<Longrightarrow> f x \<in> set (map f xs)"
  by auto

text \<open>
  C5. An address that is in the cache when a geocoding pass starts, whether with
  coordinates or marked unresolvable, is not sent to the provider in that pass: the number
  of queries for it stays what it was. And over two passes, the second starting from the
  cache file the first one left, at most one query for any one address is sent in total.
\<close>

theorem cache_hit_never_requeried:
  "(cache_file w = Some c \<and> c a \<noteq> None \<longrightarrow>
      count_list (lookups (snd (geocode_addresses g1 df1 w))) (query a) = count_list (lookups w) (query a))
   \<and> count_list (lookups (snd (geocode_addresses g2 df2 (snd (geocode_addresses g1 df1 w))))) (query a)
       \<le> count_list (lookups w) (query a) + 1"
proof (intro conjI impI)
  assume "cache_file w = Some c \<and> c a \<noteq> None"
  then show "count_list (lookups (snd (geocode_addresses g1 df1 w))) (query a) = count_list (lookups w) (query a)"
    by (simp add: geocode_lookups_hit)
next
  let ?w1 = "snd (geocode_addresses g1 df1 w)"
  let ?c0 = "case cache_file w of None \<Rightarrow> Map.empty | Some c \<Rightarrow> c"
  show "count_list (lookups (snd (geocode_addresses g2 df2 ?w1))) (query a) \<le> count_list (lookups w) (query a) + 1"
  proof (cases "''Block_Address'' \<in> set (columns df1) \<and> a \<in> set (unique_addresses df1) \<and> ?c0 a = None")
    case True
    then have "cache_file ?w1 = Some (\<lambda>a. if a \<in> set (unique_addresses df1) \<and> ?c0 a = None
                         then Some (lookup_result g1 a) else ?c0 a)"
      by (intro geocode_world(1)) simp_all
    then have "(case cache_file ?w1 of None \<Rightarrow> Map.empty | Some c \<Rightarrow> c) a \<noteq> None"
      using True by simp
    then have "count_list (lookups (snd (geocode_addresses g2 df2 ?w1))) (query a)
                 = count_list (lookups ?w1) (query a)"
      by (rule geocode_lookups_hit)
    then show ?thesis
      using geocode_lookups_le [of g1 df1 w a] by simp
  next
    case False
    then have "count_list (lookups ?w1) (query a) = count_list (lookups w) (query a)"
      by (simp add: geocode_new_lookups [of g1 df1 w])
    then show ?thesis
      using geocode_lookups_le [of g2 df2 ?w1 a] by simp
  qed
qed

theorem cache_hit_never_requeried_witness:
  "count_list (lookups (snd (geocode_addresses (\<lambda>q. Inr (Some (1, 2)) :: unit + location option)
       \<lparr>columns = [''Incident_Type'', ''Block_Address'', ''Occurred_Datetime''],
        rows = [row_of_attrs \<lparr>Incident_Type = Some ''THEFT'', Block_Address = Some ''1 MAIN ST'',
                  Occurred_Datetime = Some 0\<rparr>]\<rparr>
       \<lparr>cache_file = Some [''1 MAIN ST'' \<mapsto> None], lookups = []\<rparr>))) (query ''1 MAIN ST'') = 0"
proof -
  let ?g = "\<lambda>q. Inr (Some (1, 2)) :: unit + location option"
  let ?df = "\<lparr>columns = [''Incident_Type'', ''Block_Address'', ''Occurred_Datetime''],
        rows = [row_of_attrs \<lparr>Incident_Type = Some ''THEFT'', Block_Address = Some ''1 MAIN ST'',
                  Occurred_Datetime = Some 0\<rparr>]\<rparr>"
  let ?w = "\<lparr>cache_file = Some [''1 MAIN ST'' \<mapsto> None], lookups = []\<rparr>"
  show ?thesis
    using cache_hit_never_requeried [of ?w "[''1 MAIN ST'' \<mapsto> None]" "''1 MAIN ST''" ?g ?df ?g ?df]
    by simp
qed

text \<open>
  C7. When the lookup of an address of the batch raises, the pass records the address as
  unresolvable in the cache it writes, every other address of the batch is processed as
  usual (it is in the written cache with what its own lookup gave, or with what the cache
  had), and every row whose address resolved is in the frame the function returns: the
  failure neither aborts the batch nor reaches the caller.
\<close>

theorem lookup_error_recorded:
  assumes "geocode (query a) = Inl e"
    and "Some a \<in> Block_Address ` set (rows df)"
    and "''Block_Address'' \<in> set (columns df)"
    and "c0 = (case cache_file w of None \<Rightarrow> Map.empty | Some c \<Rightarrow> c)"
    and "c0 a = None"
  shows "\<exists>gc. cache_file (snd (geocode_addresses geocode df w)) = Some gc
           \<and> gc a = Some None
           \<and> (\<forall>b. Some b \<in> Block_Address ` set (rows df) \<longrightarrow>
                  gc b = (if c0 b = None then Some (lookup_result geocode b) else c0 b))
           \<and> (\<forall>r b l. r \<in> set (rows df) \<and> Block_Address r = Some b \<and> gc b = Some (Some l) \<longrightarrow>
                  (\<exists>out. fst (geocode_addresses geocode df w) = Inr out
                     \<and> split_coords (r\<lparr>coords := Some l\<rparr>) \<in> set (rows out)))"
proof -
  let ?gc = "\<lambda>a. if a \<in> set (unique_addresses df) \<and> c0 a = None
                         then Some (lookup_result geocode a) else c0 a"
  have gc: "cache_file (snd (geocode_addresses geocode df w)) = Some ?gc"
    using assms(3,4) by (rule geocode_world(1))
  have a: "?gc a = Some None"
    using assms(1,2,5) by (simp add: set_unique_addresses lookup_result_def)
  have others: "\<forall>b. Some b \<in> Block_Address ` set (rows df) \<longrightarrow>
                  ?gc b = (if c0 b = None then Some (lookup_result geocode b) else c0 b)"
    by (simp add: set_unique_addresses)
  have out: "\<exists>out. fst (geocode_addresses geocode df w) = Inr out
                     \<and> split_coords (r\<lparr>coords := Some l\<rparr>) \<in> set (rows out)"
    if "r \<in> set (rows df)" "Block_Address r = Some b" "?gc b = Some (Some l)" for r b l
  proof -
    let ?f = "\<lambda>r. r\<lparr>coords := (case Block_Address r of None \<Rightarrow> None
                                     | Some b \<Rightarrow> (case ?gc b of None \<Rightarrow> None | Some v \<Rightarrow> v))\<rparr>"
    let ?kept = "filter (\<lambda>r. coords r \<noteq> None) (map ?f (rows df))"
    have fr: "?f r = r\<lparr>coords := Some l\<rparr>"
      using that(2,3) by simp
    have "?f r \<in> ?f ` set (rows df)"
      using that(1) by (rule imageI)
    moreover have "coords (?f r) \<noteq> None"
      unfolding fr by simp
    ultimately have "?f r \<in> set ?kept"
      unfolding set_filter set_map by blast
    then have kept: "r\<lparr>coords := Some l\<rparr> \<in> set ?kept"
      by (simp only: fr)
    then have ne: "?kept \<noteq> []" by (rule in_set_nonempty)
    have "fst (geocode_addresses geocode df w)
            = Inr \<lparr>columns = add_column (add_column (add_column (columns df)
                                   ''coords'') ''latitude'') ''longitude'',
                   rows = map split_coords ?kept\<rparr>"
      using ne unfolding geocode_result [OF assms(3) gc] Let_def by simp
    moreover have "split_coords (r\<lparr>coords := Some l\<rparr>) \<in> set (map split_coords ?kept)"
      using kept by (rule in_set_map)
    ultimately show ?thesis by simp
  qed
  show ?thesis
    using gc a others out by blast
qed

theorem lookup_error_recorded_witness:
  "\<exists>gc. cache_file (snd (geocode_addresses
        (\<lambda>q. if q = query ''1 MAIN ST'' then Inl () else Inr (Some (1, 2)))
        \<lparr>columns = [''Incident_Type'', ''Block_Address'', ''Occurred_Datetime''],
         rows = [row_of_attrs \<lparr>Incident_Type = Some ''THEFT'', Block_Address = Some ''1 MAIN ST'',
                   Occurred_Datetime = Some 0\<rparr>,
                 row_of_attrs \<lparr>Incident_Type = Some ''THEFT'', Block_Address = Some ''2 OAK ST'',
                   Occurred_Datetime = Some 0\<rparr>]\<rparr>
        \<lparr>cache_file = None, lookups = []\<rparr>)) = Some gc
      \<and> gc ''1 MAIN ST'' = Some None \<and> gc ''2 OAK ST'' = Some (Some (1, 2))"
  using lookup_error_recorded [of "\<lambda>q. if q = query ''1 MAIN ST'' then Inl () else Inr (Some (1, 2))"
      "''1 MAIN ST''" "()"
      "\<lparr>columns = [''Incident_Type'', ''Block_Address'', ''Occurred_Datetime''],
         rows = [row_of_attrs \<lparr>Incident_Type = Some ''THEFT'', Block_Address = Some ''1 MAIN ST'',
                   Occurred_Datetime = Some 0\<rparr>,
                 row_of_attrs \<lparr>Incident_Type = Some ''THEFT'', Block_Address = Some ''2 OAK ST'',
                   Occurred_Datetime = Some 0\<rparr>]\<rparr>"
      Map.empty "\<lparr>cache_file = None, lookups = []\<rparr>"]
  by (auto simp: row_of_attrs_def lookup_result_def)

text \<open>
  C10. No row of the frame that geocode\_addresses returns has a missing address; every
  query sent in the pass is the query of an address that some row holds; and every key the
  pass adds to the cache is such an address. A missing address therefore causes no lookup
  and no cache entry.
\<close>

theorem null_address_dropped:
  "(\<forall>out w'. geocode_addresses g df w = (Inr out, w') \<longrightarrow>
       (\<forall>r\<in>set (rows out). Block_Address r \<noteq> None))
   \<and> (\<forall>q. q \<in> set (lookups (snd (geocode_addresses g df w))) \<longrightarrow>
          q \<in> set (lookups w) \<or> (\<exists>a. q = query a \<and> Some a \<in> Block_Address ` set (rows df)))
   \<and> (\<forall>gc a. cache_file (snd (geocode_addresses g df w)) = Some gc \<and> gc a \<noteq> None \<longrightarrow>
          (case cache_file w of None \<Rightarrow> Map.empty | Some c \<Rightarrow> c) a \<noteq> None
          \<or> Some a \<in> Block_Address ` set (rows df))"
proof (cases "''Block_Address'' \<in> set (columns df)")
  case False
  then show ?thesis
    by (auto simp: geocode_world_KeyError)
next
  case True
  let ?c0 = "case cache_file w of None \<Rightarrow> Map.empty | Some c \<Rightarrow> c"
  note U = geocode_addresses_unfold [OF True, of g w]
  have rows: "\<forall>r\<in>set (rows out). Block_Address r \<noteq> None"
    if "geocode_addresses g df w = (Inr out, w')" for out w'
  proof
    fix r assume r: "r \<in> set (rows out)"
    let ?ac = "fst (snd (geocode_loop g (unique_addresses df) ?c0 Map.empty (lookups w)))"
    let ?kept = "filter (\<lambda>r. coords r \<noteq> None) (map (map_coords ?ac) (rows df))"
    have "rows out = map split_coords ?kept"
      using that unfolding U Let_def by (auto split: if_splits)
    then obtain r0 where "r = split_coords (map_coords ?ac r0)" and "coords (map_coords ?ac r0) \<noteq> None"
      using r by auto
    then show "Block_Address r \<noteq> None"
      by (cases "Block_Address r0") (simp_all add: map_coords_def split_coords_def)
  qed
  have sent: "q \<in> set (lookups w) \<or> (\<exists>a. q = query a \<and> Some a \<in> Block_Address ` set (rows df))"
    if "q \<in> set (lookups (snd (geocode_addresses g df w)))" for q
    using that unfolding geocode_world(2) [OF True refl] by (auto simp: set_unique_addresses)
  have cache: "?c0 a \<noteq> None \<or> Some a \<in> Block_Address ` set (rows df)"
    if "cache_file (snd (geocode_addresses g df w)) = Some gc \<and> gc a \<noteq> None" for gc a
    using that unfolding geocode_world(1) [OF True refl] by (auto simp: set_unique_addresses split: if_splits)
  show ?thesis
    using rows sent cache by blast
qed

theorem null_address_dropped_witness:
  "\<exists>out w'. geocode_addresses (\<lambda>q. Inr (Some (1, 2)) :: unit + location option)
        \<lparr>columns = [''Incident_Type'', ''Block_Address'', ''Occurred_Datetime''],
         rows = [row_of_attrs \<lparr>Incident_Type = Some ''THEFT'', Block_Address = None,
                   Occurred_Datetime = Some 0\<rparr>,
                 row_of_attrs \<lparr>Incident_Type = Some ''THEFT'', Block_Address = Some ''2 OAK ST'',
                   Occurred_Datetime = Some 0\<rparr>]\<rparr>
        \<lparr>cache_file = None, lookups = []\<rparr> = (Inr out, w')
      \<and> length (rows out) = 1 \<and> (\<forall>r\<in>set (rows out). Block_Address r \<noteq> None)
      \<and> lookups w' = [query ''2 OAK ST'']"
proof -
  let ?g = "\<lambda>q. Inr (Some (1, 2)) :: unit + location option"
  let ?df = "\<lparr>columns = [''Incident_Type'', ''Block_Address'', ''Occurred_Datetime''],
         rows = [row_of_attrs \<lparr>Incident_Type = Some ''THEFT'', Block_Address = None,
                   Occurred_Datetime = Some 0\<rparr>,
                 row_of_attrs \<lparr>Incident_Type = Some ''THEFT'', Block_Address = Some ''2 OAK ST'',
                   Occurred_Datetime = Some 0\<rparr>]\<rparr>"
  let ?w = "\<lparr>cache_file = None, lookups = []\<rparr>"
  obtain res w' where eq: "geocode_addresses ?g ?df ?w = (res, w')"
    by (cases "geocode_addresses ?g ?df ?w")
  have "fst (geocode_addresses ?g ?df ?w) = Inr \<lparr>columns = [''Incident_Type'', ''Block_Address'', ''Occurred_Datetime'', ''coords'', ''latitude'', ''longitude''],
     rows = [\<lparr>Incident_Type = Some ''THEFT'', Block_Address = Some ''2 OAK ST'',
                   Occurred_Datetime = Some 0, coords = Some (1, 2), latitude = Some 1, longitude = Some 2, hour = None, time_of_day = None\<rparr>]\<rparr>"
    and "lookups (snd (geocode_addresses ?g ?df ?w)) = [query ''2 OAK ST'']"
    by (simp_all add: geocode_addresses_def unique_addresses_def row_of_attrs_def lookup_result_def
        map_coords_def split_coords_def add_column_def Let_def)
  then show ?thesis
    using null_address_dropped [of ?g ?df ?w] eq by auto
qed

section \<open>Density scorer\<close>

lemma rint_mono: "x \<le> y \<Longrightarrow> rint x \<le> rint y"
proof -
  assume xy: "x \<le> y"
  have fl: "\<lfloor>x\<rfloor> \<le> \<lfloor>y\<rfloor>" using xy by (rule floor_mono)
  have lo: "\<lfloor>z\<rfloor> \<le> rint z" and hi: "rint z \<le> \<lfloor>z\<rfloor> + 1" for z
    by (simp_all add: rint_def Let_def)
  show ?thesis
  proof (cases "\<lfloor>x\<rfloor> = \<lfloor>y\<rfloor>")
    case True
    then show ?thesis using xy by (auto simp: rint_def Let_def)
  next
    case False
    then have "\<lfloor>x\<rfloor> + 1 \<le> \<lfloor>y\<rfloor>" using fl by simp
    then show ?thesis using hi [of x] lo [of y] by linarith
  qed
qed

lemma np_round1_mono: "x \<le> y \<Longrightarrow> np_round1 x \<le> np_round1 y"
  by (simp add: np_round1_def rint_mono divide_right_mono)

lemma clip_mono: "x \<le> y \<Longrightarrow> clip lo hi x \<le> clip lo hi y"
  by (simp add: clip_def min_def max_def)

lemma clip_range: "lo \<le> hi \<Longrightarrow> lo \<le> clip lo hi x \<and> clip lo hi x \<le> hi"
  by (simp add: clip_def min_def max_def)

lemma sigmoid_antimono:
  fixes s t :: real
  assumes "s \<le> t"
  shows "10 * (1 - 1 / (1 + exp (- 3 * t))) \<le> 10 * (1 - 1 / (1 + exp (- 3 * s)))"
proof -
  have e: "exp (- 3 * t) \<le> exp (- 3 * s)" using assms by simp
  have pos: "0 < 1 + exp (- 3 * t)" "0 < 1 + exp (- 3 * s)"
    by (simp_all add: add_pos_pos)
  have "1 / (1 + exp (- 3 * s)) \<le> 1 / (1 + exp (- 3 * t))"
    using e pos by (simp add: frac_le)
  then show ?thesis by simp
qed

lemma density_score_antimono:
  assumes "p50 \<le> p95" and "a \<le> b"
  shows "density_score p50 p95 b \<le> density_score p50 p95 a"
proof -
  have d: "0 < p95 - p50 + 1 / 10 ^ 9" using assms(1) by (simp add: add_nonneg_pos)
  have "(min a p95 - p50) / (p95 - p50 + 1 / 10 ^ 9) \<le> (min b p95 - p50) / (p95 - p50 + 1 / 10 ^ 9)"
    using assms(2) d by (intro divide_right_mono) (auto simp: min_def)
  then show ?thesis
    unfolding density_score_def Let_def
    by (intro clip_mono np_round1_mono sigmoid_antimono)
qed

lemma density_score_range: "1 / 2 \<le> density_score p50 p95 c \<and> density_score p50 p95 c \<le> 19 / 2"
  unfolding density_score_def Let_def by (rule clip_range) simp

lemma interp_mono:
  fixes s :: "real list"
  assumes "sorted s" and "s \<noteq> []" and "0 \<le> h1" and "h1 \<le> h2" and "h2 \<le> real (length s - 1)"
  shows "s ! nat \<lfloor>h1\<rfloor> + (h1 - real (nat \<lfloor>h1\<rfloor>)) * (s ! min (nat \<lfloor>h1\<rfloor> + 1) (length s - 1) - s ! nat \<lfloor>h1\<rfloor>)
       \<le> s ! nat \<lfloor>h2\<rfloor> + (h2 - real (nat \<lfloor>h2\<rfloor>)) * (s ! min (nat \<lfloor>h2\<rfloor> + 1) (length s - 1) - s ! nat \<lfloor>h2\<rfloor>)"
proof -
  let ?n = "length s"
  have n: "0 < ?n" using assms(2) by simp
  have bounds: "nat \<lfloor>h\<rfloor> \<le> ?n - 1 \<and> 0 \<le> h - real (nat \<lfloor>h\<rfloor>) \<and> h - real (nat \<lfloor>h\<rfloor>) < 1"
    if "0 \<le> h" "h \<le> real (?n - 1)" for h
  proof -
    have "\<lfloor>h\<rfloor> \<le> int (?n - 1)" using that(2) by (simp add: floor_le_iff)
    moreover have "0 \<le> \<lfloor>h\<rfloor>" using that(1) by simp
    ultimately show ?thesis by (simp add: nat_le_iff) linarith
  qed
  have seg: "s ! nat \<lfloor>h\<rfloor> \<le> s ! nat \<lfloor>h\<rfloor> + (h - real (nat \<lfloor>h\<rfloor>)) * (s ! min (nat \<lfloor>h\<rfloor> + 1) (?n - 1) - s ! nat \<lfloor>h\<rfloor>)
          \<and> s ! nat \<lfloor>h\<rfloor> + (h - real (nat \<lfloor>h\<rfloor>)) * (s ! min (nat \<lfloor>h\<rfloor> + 1) (?n - 1) - s ! nat \<lfloor>h\<rfloor>)
              \<le> s ! min (nat \<lfloor>h\<rfloor> + 1) (?n - 1)"
    if "0 \<le> h" "h \<le> real (?n - 1)" for h
  proof -
    let ?l = "nat \<lfloor>h\<rfloor>" and ?u = "min (nat \<lfloor>h\<rfloor> + 1) (?n - 1)"
    have b: "?l \<le> ?n - 1" "0 \<le> h - real ?l" "h - real ?l < 1" using bounds [OF that] by auto
    have "?l \<le> ?u" "?u < ?n" using n b(1) by arith+
    then have "s ! ?l \<le> s ! ?u"
      using assms(1) by (intro sorted_nth_mono)
    then have d: "0 \<le> s ! ?u - s ! ?l" by simp
    have "(h - real ?l) * (s ! ?u - s ! ?l) \<le> 1 * (s ! ?u - s ! ?l)"
      using b(3) d by (intro mult_right_mono) auto
    moreover have "0 \<le> (h - real ?l) * (s ! ?u - s ! ?l)"
      using b(2) d by simp
    ultimately show ?thesis by simp
  qed
  have h1: "0 \<le> h1" "h1 \<le> real (?n - 1)" and h2: "0 \<le> h2" "h2 \<le> real (?n - 1)"
    using assms by auto
  show ?thesis
  proof (cases "nat \<lfloor>h1\<rfloor> = nat \<lfloor>h2\<rfloor>")
    case True
    let ?l = "nat \<lfloor>h2\<rfloor>" and ?u = "min (nat \<lfloor>h2\<rfloor> + 1) (?n - 1)"
    have "?l \<le> ?u" "?u < ?n" using n bounds [OF h2] by arith+
    then have "s ! ?l \<le> s ! ?u"
      using assms(1) by (intro sorted_nth_mono)
    then have "(h1 - real ?l) * (s ! ?u - s ! ?l) \<le> (h2 - real ?l) * (s ! ?u - s ! ?l)"
      using assms(4) by (intro mult_right_mono) auto
    then show ?thesis unfolding True by simp
  next
    case False
    have "nat \<lfloor>h1\<rfloor> \<le> nat \<lfloor>h2\<rfloor>"
      using assms(4) by (intro nat_mono floor_mono)
    then have lt: "nat \<lfloor>h1\<rfloor> + 1 \<le> nat \<lfloor>h2\<rfloor>" using False by simp
    have "min (nat \<lfloor>h1\<rfloor> + 1) (?n - 1) \<le> nat \<lfloor>h2\<rfloor>" "nat \<lfloor>h2\<rfloor> < ?n"
      using lt bounds [OF h2] n by arith+
    then have "s ! min (nat \<lfloor>h1\<rfloor> + 1) (?n - 1) \<le> s ! nat \<lfloor>h2\<rfloor>"
      using assms(1) by (intro sorted_nth_mono)
    then show ?thesis
      using seg [OF h1] seg [OF h2] by linarith
  qed
qed

lemma quantile_mono:
  assumes "xs \<noteq> []" and "0 \<le> q1" and "q1 \<le> q2" and "q2 \<le> 1"
  shows "quantile xs q1 \<le> quantile xs q2"
proof -
  let ?s = "sort xs"
  have len: "length ?s = length xs" by simp
  have "q1 * real (length xs - 1) \<le> q2 * real (length xs - 1)"
    using assms(3) by (intro mult_right_mono) auto
  moreover have "q2 * real (length xs - 1) \<le> 1 * real (length xs - 1)"
    using assms(4) by (intro mult_right_mono) auto
  moreover have "0 \<le> q1 * real (length xs - 1)" using assms(2) by simp
  moreover have "?s \<noteq> []" using assms(1) len by (metis length_0_conv)
  ultimately show ?thesis
    using interp_mono [of ?s "q1 * real (length xs - 1)" "q2 * real (length xs - 1)"]
    by (simp add: quantile_def Let_def)
qed

text \<open>
  C9. The stage-1 score is monotone non-increasing in the incident count: of two edges of
  one distribution, the one with the larger count never has the larger score. Every score
  lies in [0.5, 9.5], and there is one score per edge.
\<close>

theorem density_scores_monotone_bounded:
  "(\<forall>i j. i < length crime_counts \<and> j < length crime_counts \<and> crime_counts ! i \<le> crime_counts ! j \<longrightarrow>
      calculate_crime_density_scores crime_counts ! j \<le> calculate_crime_density_scores crime_counts ! i)
   \<and> (\<forall>s\<in>set (calculate_crime_density_scores crime_counts). 1 / 2 \<le> s \<and> s \<le> 19 / 2)
   \<and> length (calculate_crime_density_scores crime_counts) = length crime_counts"
proof (cases "crime_counts = []")
  case True
  then show ?thesis by (simp add: calculate_crime_density_scores_def)
next
  case False
  let ?cs = "map real crime_counts"
  have q: "quantile ?cs (50 / 100) \<le> quantile ?cs (95 / 100)"
    using False by (intro quantile_mono) auto
  have eq: "calculate_crime_density_scores crime_counts
              = map (density_score (quantile ?cs (50 / 100)) (quantile ?cs (95 / 100))) ?cs"
    using False by (simp add: calculate_crime_density_scores_def Let_def)
  show ?thesis
    unfolding eq using density_score_antimono [OF q] density_score_range by auto
qed

theorem density_scores_monotone_bounded_witness:
  "calculate_crime_density_scores [1, 2, 7] ! 2 \<le> calculate_crime_density_scores [1, 2, 7] ! 0
   \<and> 1 / 2 \<le> calculate_crime_density_scores [1, 2, 7] ! 2
   \<and> calculate_crime_density_scores [1, 2, 7] ! 0 \<le> 19 / 2"
proof -
  let ?cs = "[1, 2, 7 :: nat]"
  have m: "\<forall>i j. i < length ?cs \<and> j < length ?cs \<and> ?cs ! i \<le> ?cs ! j \<longrightarrow>
          calculate_crime_density_scores ?cs ! j \<le> calculate_crime_density_scores ?cs ! i"
    and r: "\<forall>s\<in>set (calculate_crime_density_scores ?cs). 1 / 2 \<le> s \<and> s \<le> 19 / 2"
    and l: "length (calculate_crime_density_scores ?cs) = length ?cs"
    using density_scores_monotone_bounded [of ?cs] by blast+
  have "0 < length ?cs \<and> 2 < length ?cs \<and> ?cs ! 0 \<le> ?cs ! 2 \<longrightarrow>
          calculate_crime_density_scores ?cs ! 2 \<le> calculate_crime_density_scores ?cs ! 0"
    using m by blast
  then have mono: "calculate_crime_density_scores ?cs ! 2 \<le> calculate_crime_density_scores ?cs ! 0"
    by simp
  have "calculate_crime_density_scores ?cs ! 0 \<in> set (calculate_crime_density_scores ?cs)"
    and "calculate_crime_density_scores ?cs ! 2 \<in> set (calculate_crime_density_scores ?cs)"
    using l by (simp_all del: One_nat_def)
  then show ?thesis
    using mono r by blast
qed

lemma term_le_sum_list:
  fixes f :: "real \<Rightarrow> real"
  assumes "\<forall>x\<in>set xs. 0 \<le> f x" and "z \<in> set xs"
  shows "f z \<le> sum_list (map f xs)"
  using assms
proof (induction xs)
  case Nil
  then show ?case by simp
next
  case (Cons a xs)
  have "0 \<le> sum_list (map f xs)" using Cons.prems(1) by (intro sum_list_nonneg) auto
  moreover have "0 \<le> f a" using Cons.prems(1) by simp
  ultimately show ?case using Cons by (cases "z = a") (auto simp: add_increasing add_increasing2)
qed

lemma series_std_pos:
  assumes "x \<in> set scores" and "y \<in> set scores" and "x \<noteq> y"
  shows "\<exists>s. series_std scores = Fin s \<and> 0 < s"
proof -
  let ?m = "series_mean scores"
  have "card {x, y} \<le> card (set scores)" using assms(1,2) by (intro card_mono) auto
  then have len: "2 \<le> length scores"
    using assms(3) card_length [of scores] by simp
  obtain z where z: "z \<in> set scores" "z \<noteq> ?m"
    using assms by (cases "x = ?m") auto
  have "0 < (z - ?m) ^ 2" using z(2) by simp
  also have "(z - ?m) ^ 2 \<le> sum_list (map (\<lambda>x. (x - ?m) ^ 2) scores)"
    using z(1) by (intro term_le_sum_list) auto
  finally have "0 < sum_list (map (\<lambda>x. (x - ?m) ^ 2) scores) / real (length scores - 1)"
    using len by simp
  then have "0 < sqrt (sum_list (map (\<lambda>x. (x - ?m) ^ 2) scores) / real (length scores - 1))"
    by simp
  then show ?thesis using len by (simp add: series_std_def)
qed

lemma renormalize_in_range:
  assumes "series_std scores = Fin s" and "s \<noteq> 0" and "y \<in> set (renormalize scores)"
  shows "\<exists>v. y = Fin v \<and> 0 \<le> v \<and> v \<le> 10"
  using assms by (auto simp: renormalize_def clip_def min_def max_def)

lemma quantile_33: "quantile [3, 3] (1 / 2) = 3" "quantile [3, 3] (19 / 20) = 3"
  by (simp_all add: quantile_def Let_def)

lemma rint_50: "rint 50 = 50"
  by (simp add: rint_def Let_def)

lemma np_round1_5: "np_round1 5 = 5"
  by (simp add: np_round1_def rint_50)

lemma density_score_centre: "density_score c c c = 5"
  by (simp add: density_score_def Let_def np_round1_5 clip_def)

lemma calc_33: "calculate_crime_density_scores [3, 3] = [5, 5]"
  by (simp add: calculate_crime_density_scores_def Let_def quantile_33 density_score_centre)

text \<open>
  When some edge has an incident and the scores before the re-normalisation are not all
  identical, the standard deviation is positive and the final score of every edge, the
  zero-incident edges included, is a number in [0, 10]; there is one final score per edge.
\<close>

lemma final_scores_in_range:
  assumes "crime_counts \<noteq> []"
    and "x \<in> set (calculate_crime_density_scores crime_counts @ replicate n_unmatched 10)"
    and "y \<in> set (calculate_crime_density_scores crime_counts @ replicate n_unmatched 10)"
    and "x \<noteq> y"
  shows "\<exists>final. precompute_safety_scores crime_counts n_unmatched = Inr final
           \<and> (\<forall>z\<in>set final. \<exists>v. z = Fin v \<and> 0 \<le> v \<and> v \<le> 10)
           \<and> length final = length crime_counts + n_unmatched"
proof -
  let ?S = "calculate_crime_density_scores crime_counts @ replicate n_unmatched 10"
  obtain s where s: "series_std ?S = Fin s" "0 < s"
    using series_std_pos [OF assms(2,3,4)] by blast
  have "length (calculate_crime_density_scores crime_counts) = length crime_counts"
    by (simp add: calculate_crime_density_scores_def Let_def)
  then have "length (renormalize ?S) = length crime_counts + n_unmatched"
    by (simp add: renormalize_def)
  moreover have "\<forall>z\<in>set (renormalize ?S). \<exists>v. z = Fin v \<and> 0 \<le> v \<and> v \<le> 10"
    using renormalize_in_range [OF s(1)] s(2) by blast
  ultimately show ?thesis
    using assms(1) by (simp add: precompute_safety_scores_def)
qed

text \<open>
  C1. The division by the standard deviation has no guard, so the final scores are not
  always in [0, 10]: in a network of two edges with three incidents each, both edges score
  5.0 in stage 1, the deviation is zero, and 0/0 leaves NaN as the final score of both.
\<close>

theorem zero_deviation_gives_nan:
  "precompute_safety_scores [3, 3] 0 = Inr [NaN, NaN]"
  by (simp add: precompute_safety_scores_def calc_33 renormalize_def series_std_def series_mean_def)

text \<open>With no incident at all the function raises before it reaches the re-normalisation.\<close>

lemma no_incident_raises:
  "precompute_safety_scores [] n_unmatched = Inl (ValueError ''Columns must be same length as key'')"
  by (simp add: precompute_safety_scores_def)

section \<open>Colour tiers\<close>

text \<open>The rounding within one binade, and its value at the numbers this computation meets.\<close>

lemma fl64_binade:
  assumes "2 powi e \<le> \<bar>x\<bar>" and "\<bar>x\<bar> < 2 powi (e + 1)"
  shows "fl64 x = of_int (rint (x * 2 powi (52 - e))) * 2 powi (e - 52)"
proof -
  have "(0::real) < 2 powi e" by simp
  then have pos: "0 < \<bar>x\<bar>"
    using assms(1) by linarith
  have a: "(2::real) powr real_of_int e = 2 powi e"
    by (rule powr_real_of_int') simp_all
  have "(2::real) powr real_of_int (e + 1) = 2 powi (e + 1)"
    by (rule powr_real_of_int') simp_all
  then have b: "(2::real) powr (real_of_int e + 1) = 2 powi (e + 1)"
    by (simp only: of_int_add of_int_1)
  have "(2::real) powr real_of_int e \<le> \<bar>x\<bar>" "\<bar>x\<bar> < (2::real) powr (real_of_int e + 1)"
    unfolding a b using assms by blast+
  then have "\<lfloor>log 2 \<bar>x\<bar>\<rfloor> = e"
    using pos by (simp add: floor_log_eq_powr_iff)
  then show ?thesis
    using pos by (simp add: fl64_def Let_def)
qed

lemma fl64_zero: "fl64 0 = 0"
  by (simp add: fl64_def)

lemma fl64_eval_1: "fl64 (900719925474099 / 4503599627370496) = (900719925474099 / 4503599627370496)"
  by (simp add: fl64_binade [where e = "- 3"] rint_def)

lemma fl64_eval_2: "fl64 (1 / 5) = (3602879701896397 / 18014398509481984)"
  by (simp add: fl64_binade [where e = "- 3"] rint_def)

lemma fl64_eval_3: "fl64 (3602879701896397 / 18014398509481984) = (3602879701896397 / 18014398509481984)"
  by (simp add: fl64_binade [where e = "- 3"] rint_def)

lemma fl64_eval_4: "fl64 (900719925474099 / 2251799813685248) = (900719925474099 / 2251799813685248)"
  by (simp add: fl64_binade [where e = "- 2"] rint_def)

lemma fl64_eval_5: "fl64 (2 / 5) = (3602879701896397 / 9007199254740992)"
  by (simp add: fl64_binade [where e = "- 2"] rint_def)

lemma fl64_eval_6: "fl64 (3602879701896397 / 9007199254740992) = (3602879701896397 / 9007199254740992)"
  by (simp add: fl64_binade [where e = "- 2"] rint_def)

lemma fl64_eval_7: "fl64 (5404319552844595 / 9007199254740992) = (5404319552844595 / 9007199254740992)"
  by (simp add: fl64_binade [where e = "- 1"] rint_def)

lemma fl64_eval_8: "fl64 (3 / 5) = (5404319552844595 / 9007199254740992)"
  by (simp add: fl64_binade [where e = "- 1"] rint_def)

lemma fl64_eval_9: "fl64 (1351079888211149 / 2251799813685248) = (1351079888211149 / 2251799813685248)"
  by (simp add: fl64_binade [where e = "- 1"] rint_def)

lemma fl64_eval_10: "fl64 (4 / 5) = (3602879701896397 / 4503599627370496)"
  by (simp add: fl64_binade [where e = "- 1"] rint_def)

lemma fl64_eval_11: "fl64 (3602879701896397 / 4503599627370496) = (3602879701896397 / 4503599627370496)"
  by (simp add: fl64_binade [where e = "- 1"] rint_def)

lemma fl64_eval_12: "fl64 1 = 1"
  by (simp add: fl64_binade [where e = "0"] rint_def)

lemma fl64_eval_13: "fl64 (5404319552844595 / 4503599627370496) = (5404319552844595 / 4503599627370496)"
  by (simp add: fl64_binade [where e = "0"] rint_def)

lemma fl64_eval_14: "fl64 (12610078956637389 / 9007199254740992) = (3152519739159347 / 2251799813685248)"
  by (simp add: fl64_binade [where e = "0"] rint_def)

lemma fl64_eval_15: "fl64 (900719925474099 / 562949953421312) = (900719925474099 / 562949953421312)"
  by (simp add: fl64_binade [where e = "0"] rint_def)

lemma fl64_eval_16: "fl64 (3602879701896397 / 2251799813685248) = (3602879701896397 / 2251799813685248)"
  by (simp add: fl64_binade [where e = "0"] rint_def)

lemma fl64_eval_17: "fl64 (8106479329266893 / 4503599627370496) = (8106479329266893 / 4503599627370496)"
  by (simp add: fl64_binade [where e = "0"] rint_def)

lemma fl64_eval_18: "fl64 2 = 2"
  by (simp add: fl64_binade [where e = "1"] rint_def)

lemma fl64_eval_19: "fl64 3 = 3"
  by (simp add: fl64_binade [where e = "1"] rint_def)

lemma fl64_eval_20: "fl64 (900719925474099 / 281474976710656) = (900719925474099 / 281474976710656)"
  by (simp add: fl64_binade [where e = "1"] rint_def)

lemma fl64_eval_21: "fl64 (2026619832316723 / 562949953421312) = (2026619832316723 / 562949953421312)"
  by (simp add: fl64_binade [where e = "1"] rint_def)

lemma fl64_eval_22: "fl64 (1914029841632461 / 281474976710656) = (1914029841632461 / 281474976710656)"
  by (simp add: fl64_binade [where e = "2"] rint_def)

lemma fl64_eval_23: "fl64 8 = 8"
  by (simp add: fl64_binade [where e = "3"] rint_def)

lemma fl64_eval_24: "fl64 10 = 10"
  by (simp add: fl64_binade [where e = "3"] rint_def)

lemmas fl64_evals = fl64_zero fl64_eval_1 fl64_eval_2 fl64_eval_3 fl64_eval_4 fl64_eval_5 fl64_eval_6 fl64_eval_7 fl64_eval_8 fl64_eval_9 fl64_eval_10 fl64_eval_11 fl64_eval_12 fl64_eval_13 fl64_eval_14 fl64_eval_15 fl64_eval_16 fl64_eval_17 fl64_eval_18 fl64_eval_19 fl64_eval_20 fl64_eval_21 fl64_eval_22 fl64_eval_23 fl64_eval_24

text \<open>
  The breakpoints of the count map {A:1, B:2, B2:10}: the float64 numbers that print as
  1.4, 1.8, 3.5999999999999996, 6.800000000000001 and 10.0.
\<close>

lemma levels:
  "[fl64 (2 / 10), fl64 (4 / 10), fl64 (6 / 10), fl64 (8 / 10), fl64 1]
     = [3602879701896397 / 18014398509481984, 3602879701896397 / 9007199254740992,
        5404319552844595 / 9007199254740992, 3602879701896397 / 4503599627370496, 1]"
  by (simp add: fl64_evals)

lemma np_quantile_ex:
  "np_quantile [1, 2, 10] (3602879701896397 / 18014398509481984) = 3152519739159347 / 2251799813685248"
  "np_quantile [1, 2, 10] (3602879701896397 / 9007199254740992) = 8106479329266893 / 4503599627370496"
  "np_quantile [1, 2, 10] (5404319552844595 / 9007199254740992) = 2026619832316723 / 562949953421312"
  "np_quantile [1, 2, 10] (3602879701896397 / 4503599627370496) = 1914029841632461 / 281474976710656"
  "np_quantile [1, 2, 10] 1 = 10"
  by (simp_all add: np_quantile_def lerp_def Let_def fl64_evals)

lemma ex_breaks:
  "classify_counts [(''A'', 1), (''B'', 2), (''B2'', 10)]
     = [3152519739159347 / 2251799813685248, 8106479329266893 / 4503599627370496,
        2026619832316723 / 562949953421312, 1914029841632461 / 281474976710656, 10]"
  unfolding classify_counts_def Let_def levels
  by (simp add: np_quantile_ex np_unique_def)

text \<open>
  C3. In the count map {A:1, B:2, B2:10} the edge with the maximum count gets the top
  colour, and so does the edge with the minimum count: its count 1 lies below the first
  breakpoint, no interval of the loop holds it, and the function falls through to the
  last colour of the palette instead of the first.
\<close>

theorem min_count_gets_top_colour:
  "edge_colors [(''A'', 1), (''B'', 2), (''B2'', 10)]
     = [(''A'', Inr ''#85144b''), (''B'', Inr ''#FFDC00''), (''B2'', Inr ''#85144b'')]"
  unfolding edge_colors_def ex_breaks Let_def
  by (simp add: get_color_for_count_def color_palette_def)

text \<open>
  A count map with a single value, 3 on two edges: the five percentiles are all 3.0, there
  is one breakpoint, and both edges get the last colour of the palette, not the neutral
  one.
\<close>

lemma np_quantile_33:
  "np_quantile [3, 3] (3602879701896397 / 18014398509481984) = 3"
  "np_quantile [3, 3] (3602879701896397 / 9007199254740992) = 3"
  "np_quantile [3, 3] (5404319552844595 / 9007199254740992) = 3"
  "np_quantile [3, 3] (3602879701896397 / 4503599627370496) = 3"
  "np_quantile [3, 3] 1 = 3"
  by (simp_all add: np_quantile_def lerp_def Let_def fl64_evals)

lemma single_value_colours:
  "classify_counts [(''A'', 3), (''B'', 3)] = [3]"
  "edge_colors [(''A'', 3), (''B'', 3)] = [(''A'', Inr ''#85144b''), (''B'', Inr ''#85144b'')]"
proof -
  show b: "classify_counts [(''A'', 3), (''B'', 3)] = [3]"
    unfolding classify_counts_def Let_def levels
    by (simp add: np_quantile_33 np_unique_def)
  show "edge_colors [(''A'', 3), (''B'', 3)] = [(''A'', Inr ''#85144b''), (''B'', Inr ''#85144b'')]"
    unfolding edge_colors_def b Let_def
    by (simp add: get_color_for_count_def color_palette_def)
qed

end
